theory Spec2Isabelle
  imports Complex_Main
begin

section \<open>JavaScript numbers\<close>

text \<open>
  The component computes with JavaScript numbers. A number is modelled as an exact
  rational, or one of the three special values \<open>NaN\<close>, \<open>Infinity\<close> and
  \<open>-Infinity\<close>. The rounding of doubles is not modelled, and the two zeros are one
  (the only divisors of the component are \<open>100\<close> and a width read from the
  DOM, so a zero divisor is \<open>+0\<close>).
\<close>

datatype number = Fin rat | NaN | PosInf | NegInf

fun isNaN :: "number \<Rightarrow> bool" where
  "isNaN NaN = True"
| "isNaN _ = False"

definition signed_inf :: "rat \<Rightarrow> number" where
  "signed_inf s = (if s = 0 then NaN else if 0 < s then PosInf else NegInf)"

fun js_neg :: "number \<Rightarrow> number" where
  "js_neg (Fin a) = Fin (- a)"
| "js_neg NaN = NaN"
| "js_neg PosInf = NegInf"
| "js_neg NegInf = PosInf"

fun js_add :: "number \<Rightarrow> number \<Rightarrow> number" where
  "js_add (Fin a) (Fin b) = Fin (a + b)"
| "js_add (Fin a) b = b"
| "js_add NaN b = NaN"
| "js_add PosInf (Fin b) = PosInf"
| "js_add PosInf PosInf = PosInf"
| "js_add PosInf b = NaN"
| "js_add NegInf (Fin b) = NegInf"
| "js_add NegInf NegInf = NegInf"
| "js_add NegInf b = NaN"

definition js_sub :: "number \<Rightarrow> number \<Rightarrow> number" where
  "js_sub a b = js_add a (js_neg b)"

fun js_mul :: "number \<Rightarrow> number \<Rightarrow> number" where
  "js_mul (Fin a) (Fin b) = Fin (a * b)"
| "js_mul (Fin a) NaN = NaN"
| "js_mul (Fin a) PosInf = signed_inf a"
| "js_mul (Fin a) NegInf = signed_inf (- a)"
| "js_mul NaN b = NaN"
| "js_mul PosInf (Fin b) = signed_inf b"
| "js_mul PosInf NaN = NaN"
| "js_mul PosInf PosInf = PosInf"
| "js_mul PosInf NegInf = NegInf"
| "js_mul NegInf (Fin b) = signed_inf (- b)"
| "js_mul NegInf NaN = NaN"
| "js_mul NegInf PosInf = NegInf"
| "js_mul NegInf NegInf = PosInf"

fun js_div :: "number \<Rightarrow> number \<Rightarrow> number" where
  "js_div (Fin a) (Fin b) = (if b = 0 then signed_inf a else Fin (a / b))"
| "js_div (Fin a) NaN = NaN"
| "js_div (Fin a) b = Fin 0"
| "js_div NaN b = NaN"
| "js_div PosInf (Fin b) = (if 0 \<le> b then PosInf else NegInf)"
| "js_div PosInf b = NaN"
| "js_div NegInf (Fin b) = (if 0 \<le> b then NegInf else PosInf)"
| "js_div NegInf b = NaN"

text \<open>The comparison \<open>a < b\<close>; every comparison with \<open>NaN\<close> is false.\<close>

fun js_lt :: "number \<Rightarrow> number \<Rightarrow> bool" where
  "js_lt (Fin a) (Fin b) = (a < b)"
| "js_lt (Fin a) PosInf = True"
| "js_lt (Fin a) b = False"
| "js_lt NegInf (Fin b) = True"
| "js_lt NegInf PosInf = True"
| "js_lt NegInf b = False"
| "js_lt a b = False"

definition js_gt :: "number \<Rightarrow> number \<Rightarrow> bool" where
  "js_gt a b = js_lt b a"

text \<open>\<open>a || 0\<close> on a number: \<open>0\<close> and \<open>NaN\<close> are falsy.\<close>

definition or_zero :: "number \<Rightarrow> number" where
  "or_zero a = (if a = Fin 0 \<or> isNaN a then Fin 0 else a)"



section \<open>Strings and the built-in conversions\<close>

text \<open>
  A string is a list of code units below 256. \<open>trim\<close> and the numeric conversions
  skip the white space and line terminators of that range.
\<close>

definition isWhiteSpace :: "char \<Rightarrow> bool" where
  "isWhiteSpace c = (c \<in> set [CHR 0x09, CHR 0x0A, CHR 0x0B, CHR 0x0C, CHR 0x0D, CHR 0x20, CHR 0xA0])"

definition trimStart :: "string \<Rightarrow> string" where
  "trimStart s = dropWhile isWhiteSpace s"

definition trimEnd :: "string \<Rightarrow> string" where
  "trimEnd s = rev (dropWhile isWhiteSpace (rev s))"

definition trim :: "string \<Rightarrow> string" where
  "trim s = trimEnd (trimStart s)"

definition endsWith :: "string \<Rightarrow> string \<Rightarrow> bool" where
  "endsWith s t = (length t \<le> length s \<and> drop (length s - length t) s = t)"

text \<open>\<open>s.replace(c, r)\<close> with a one-character pattern: the first occurrence only.\<close>

fun replace :: "string \<Rightarrow> char \<Rightarrow> string \<Rightarrow> string" where
  "replace [] c r = []"
| "replace (x # xs) c r = (if x = c then r @ xs else x # replace xs c r)"

definition isDigit :: "char \<Rightarrow> bool" where
  "isDigit c = (c \<in> set ''0123456789'')"

definition isHexDigit :: "char \<Rightarrow> bool" where
  "isHexDigit c = (c \<in> set ''0123456789abcdefABCDEF'')"

definition digitVal :: "char \<Rightarrow> nat" where
  "digitVal c =
     (if c \<in> set ''0123456789'' then of_char c - 48
      else if c \<in> set ''abcdef'' then of_char c - 87
      else of_char c - 55)"

text \<open>The value of a digit string in a base.\<close>

definition digitsVal :: "nat \<Rightarrow> string \<Rightarrow> nat" where
  "digitsVal base ds = foldl (\<lambda>acc c. base * acc + digitVal c) 0 ds"

text \<open>
  \<open>ExponentPart\<close>: \<open>e\<close> or \<open>E\<close>, an optional sign and at least one digit. The
  exponent read and the text left; no exponent part leaves the text as it is.
\<close>

definition exponentPart :: "string \<Rightarrow> int \<times> string" where
  "exponentPart s =
     (case s of
        [] \<Rightarrow> (0, s)
      | e # r \<Rightarrow>
          if e = CHR ''e'' \<or> e = CHR ''E'' then
            (case r of
               [] \<Rightarrow> (0, s)
             | g # r' \<Rightarrow>
                 if g = CHR ''+'' \<or> g = CHR ''-'' then
                   (if takeWhile isDigit r' = [] then (0, s)
                    else ((if g = CHR ''-'' then - int (digitsVal 10 (takeWhile isDigit r'))
                           else int (digitsVal 10 (takeWhile isDigit r'))),
                          dropWhile isDigit r'))
                 else if takeWhile isDigit r = [] then (0, s)
                 else (int (digitsVal 10 (takeWhile isDigit r)), dropWhile isDigit r))
          else (0, s))"

definition scale10 :: "rat \<Rightarrow> int \<Rightarrow> rat" where
  "scale10 m e = (if 0 \<le> e then m * 10 ^ nat e else m / 10 ^ nat (- e))"

text \<open>
  The longest prefix that is a \<open>StrUnsignedDecimalLiteral\<close>: \<open>Infinity\<close>, digits with
  an optional fraction, or a fraction alone, then an optional exponent. The value and
  the text left, or \<open>None\<close> when no prefix is one.
\<close>

definition strUnsignedDecimalLiteral :: "string \<Rightarrow> (number \<times> string) option" where
  "strUnsignedDecimalLiteral s =
     (if take 8 s = ''Infinity'' then Some (PosInf, drop 8 s)
      else
        let ip = takeWhile isDigit s; r1 = dropWhile isDigit s in
        (case r1 of
           [] \<Rightarrow> if ip = [] then None else Some (Fin (of_nat (digitsVal 10 ip)), [])
         | d # r2 \<Rightarrow>
             if d = CHR ''.'' then
               (let fp = takeWhile isDigit r2; r3 = dropWhile isDigit r2 in
                if ip = [] \<and> fp = [] then None
                else Some (Fin (scale10 (of_nat (digitsVal 10 ip)
                                         + of_nat (digitsVal 10 fp) / 10 ^ length fp)
                                        (fst (exponentPart r3))),
                           snd (exponentPart r3)))
             else if ip = [] then None
             else Some (Fin (scale10 (of_nat (digitsVal 10 ip)) (fst (exponentPart r1))),
                        snd (exponentPart r1))))"

definition strDecimalLiteral :: "string \<Rightarrow> (number \<times> string) option" where
  "strDecimalLiteral s =
     (case s of
        [] \<Rightarrow> None
      | c # r \<Rightarrow>
          if c = CHR ''+'' then strUnsignedDecimalLiteral r
          else if c = CHR ''-'' then map_option (\<lambda>(v, t). (js_neg v, t)) (strUnsignedDecimalLiteral r)
          else strUnsignedDecimalLiteral s)"

text \<open>
  \<open>parseFloat(s)\<close>: leading white space is skipped, the longest prefix that is a decimal
  literal is read, and what follows it is ignored; \<open>NaN\<close> when there is no such prefix.
\<close>

definition parseFloat :: "string \<Rightarrow> number" where
  "parseFloat s = (case strDecimalLiteral (trimStart s) of None \<Rightarrow> NaN | Some (v, _) \<Rightarrow> v)"

text \<open>\<open>0x\<close>, \<open>0o\<close> and \<open>0b\<close> literals of \<open>Number(s)\<close>: no sign, at least one digit.\<close>

definition nonDecimalIntegerLiteral :: "string \<Rightarrow> number option" where
  "nonDecimalIntegerLiteral t =
     (case t of
        z # x # ds \<Rightarrow>
          if z \<noteq> CHR ''0'' then None
          else if x = CHR ''x'' \<or> x = CHR ''X'' then
            Some (if ds \<noteq> [] \<and> list_all isHexDigit ds then Fin (of_nat (digitsVal 16 ds)) else NaN)
          else if x = CHR ''o'' \<or> x = CHR ''O'' then
            Some (if ds \<noteq> [] \<and> list_all (\<lambda>c. c \<in> set ''01234567'') ds
                  then Fin (of_nat (digitsVal 8 ds)) else NaN)
          else if x = CHR ''b'' \<or> x = CHR ''B'' then
            Some (if ds \<noteq> [] \<and> list_all (\<lambda>c. c \<in> set ''01'') ds
                  then Fin (of_nat (digitsVal 2 ds)) else NaN)
          else None
      | _ \<Rightarrow> None)"

text \<open>
  \<open>Number(s)\<close> on a string: the whole trimmed text has to be a numeric literal; the
  empty text is \<open>0\<close>.
\<close>

definition Number_str :: "string \<Rightarrow> number" where
  "Number_str s =
     (let t = trim s in
      if t = [] then Fin 0
      else (case nonDecimalIntegerLiteral t of
              Some v \<Rightarrow> v
            | None \<Rightarrow>
                (case strDecimalLiteral t of
                   None \<Rightarrow> NaN
                 | Some (v, rest) \<Rightarrow> if rest = [] then v else NaN)))"

section \<open>Sizes, props and the DOM\<close>

text \<open>
  A size is \<open>string | number\<close>. \<open>Pct n\<close> is the string that the template literal
  \<open>`${n}%`\<close> of \<open>handleMove\<close> builds; the decimal text of \<open>n\<close> is not spelled
  out: it has no \<open>%\<close> and no white space, and \<open>parseFloat\<close> reads it back as \<open>n\<close>.
\<close>

datatype size = Num number | Str string | Pct number

fun isString :: "size \<Rightarrow> bool" where
  "isString (Num n) = False"
| "isString (Str s) = True"
| "isString (Pct n) = True"

text \<open>\<open>value.trim().endsWith("%")\<close>; the source calls it on strings only.\<close>

fun isPercentage :: "size \<Rightarrow> bool" where
  "isPercentage (Str s) = endsWith (trim s) ''%''"
| "isPercentage (Pct n) = True"
| "isPercentage (Num n) = False"

text \<open>\<open>isString(value) ? parseFloat(value) : value\<close>.\<close>

fun toFloat :: "size \<Rightarrow> number" where
  "toFloat (Num n) = n"
| "toFloat (Str s) = parseFloat s"
| "toFloat (Pct n) = n"

text \<open>\<open>parseFloat(value.replace("%", ""))\<close>, on a string.\<close>

fun parsePercent :: "size \<Rightarrow> number" where
  "parsePercent (Str s) = parseFloat (replace s (CHR ''%'') [])"
| "parsePercent (Pct n) = n"
| "parsePercent (Num n) = n"

text \<open>\<open>Number(value)\<close>.\<close>

fun Number :: "size \<Rightarrow> number" where
  "Number (Num n) = n"
| "Number (Str s) = Number_str s"
| "Number (Pct n) = NaN"

record 'a props =
  children :: "'a list"
  initialSize :: size
  minSize :: size

definition defaultProps :: "'a list \<Rightarrow> 'a props" where
  "defaultProps cs = \<lparr>children = cs, initialSize = Str ''50%'', minSize = Num (Fin 100)\<rparr>"

text \<open>
  What the component reads of an element: \<open>left\<close> and \<open>width\<close> of
  \<open>getBoundingClientRect()\<close>, and \<open>clientWidth\<close>. A ref is \<open>None\<close> while its
  element is not mounted.
\<close>

record element =
  left :: number
  width :: number
  clientWidth :: int

record dom =
  splitPaneRef :: "element option"
  dividerRef :: "element option"

datatype error = Error string

section \<open>Validation\<close>

definition isNegative :: "size \<Rightarrow> bool" where
  "isNegative v = js_lt (toFloat v) (Fin 0)"

definition validateSize :: "size \<Rightarrow> string \<Rightarrow> error + unit" where
  "validateSize sz label =
     (if isNaN (toFloat sz) then Inl (Error (label @ '' must be a number.''))
      else if isNegative sz then Inl (Error (label @ '' must be a positive number.''))
      else Inr ())"

text \<open>The block \<open>// validates props\<close> of the component: the first failing check throws.\<close>

definition validateProps :: "'a props \<Rightarrow> error + unit" where
  "validateProps p =
     (if length (children p) \<noteq> 2 then Inl (Error ''SplitPane must have exactly two children.'')
      else case validateSize (initialSize p) ''initialSize'' of
        Inl e \<Rightarrow> Inl e
      | Inr _ \<Rightarrow>
          (case validateSize (minSize p) ''minSize'' of
             Inl e \<Rightarrow> Inl e
           | Inr _ \<Rightarrow>
               if isString (minSize p) \<and> isPercentage (minSize p)
                  \<and> js_gt (parsePercent (minSize p)) (Fin 50)
               then Inl (Error ''minSize must be less than or equal to 50%.'')
               else Inr ()))"

section \<open>Pixel to percentage\<close>

text \<open>The minimum in pixels, against the container's width.\<close>

definition minPixel :: "number \<Rightarrow> size \<Rightarrow> number" where
  "minPixel totalSize mn =
     (if isString mn \<and> isPercentage mn
      then js_mul (js_div (parsePercent mn) (Fin 100)) totalSize
      else Number mn)"

definition convertPixelToPercentage :: "dom \<Rightarrow> size \<Rightarrow> size \<Rightarrow> number" where
  "convertPixelToPercentage d mn px =
     (case splitPaneRef d of
        None \<Rightarrow> Fin 0
      | Some splitPane \<Rightarrow>
          let totalSize = width splitPane;
              leftPaneSize = js_sub (toFloat px) (left splitPane);
              leftPaneSize' =
                (if js_lt leftPaneSize (minPixel totalSize mn) then minPixel totalSize mn
                 else if js_gt leftPaneSize (js_sub totalSize (minPixel totalSize mn))
                 then js_sub totalSize (minPixel totalSize mn)
                 else leftPaneSize)
          in js_mul (js_div leftPaneSize' totalSize) (Fin 100))"

definition getPercentage :: "dom \<Rightarrow> size \<Rightarrow> size \<Rightarrow> number" where
  "getPercentage d mn v =
     (if isString v \<and> isPercentage v then parsePercent v
      else convertPixelToPercentage d mn v)"

section \<open>State, listeners and event handlers\<close>

text \<open>
  A listener on \<open>window\<close> is an event type with a callback; a callback is a closure of
  one instance of the component. \<open>addEventListener\<close> ignores a listener that is
  registered already.
\<close>

datatype callback = HandleMouseMove | HandleTouchMove | RemoveEventListeners

type_synonym listener = "string \<times> nat \<times> callback"

record world =
  leftPaneSize :: size
  listeners :: "listener list"

definition addEventListener :: "string \<Rightarrow> nat \<times> callback \<Rightarrow> listener list \<Rightarrow> listener list" where
  "addEventListener ty cb ls = (if (ty, cb) \<in> set ls then ls else ls @ [(ty, cb)])"

definition removeEventListener :: "string \<Rightarrow> nat \<times> callback \<Rightarrow> listener list \<Rightarrow> listener list" where
  "removeEventListener ty cb ls = removeAll (ty, cb) ls"

definition handleMove :: "dom \<Rightarrow> size \<Rightarrow> number \<Rightarrow> world \<Rightarrow> world" where
  "handleMove d mn x w = w\<lparr>leftPaneSize := Pct (convertPixelToPercentage d mn (Num x))\<rparr>"

definition handleKeyDown :: "dom \<Rightarrow> size \<Rightarrow> string \<Rightarrow> world \<Rightarrow> world" where
  "handleKeyDown d mn key w =
     (case dividerRef d of
        None \<Rightarrow> w
      | Some divider \<Rightarrow>
          if key = ''ArrowLeft'' then handleMove d mn (js_sub (left divider) (Fin 10)) w
          else if key = ''ArrowRight'' then handleMove d mn (js_add (left divider) (Fin 10)) w
          else w)"

definition removeEventListeners :: "nat \<Rightarrow> world \<Rightarrow> world" where
  "removeEventListeners self w =
     w\<lparr>listeners :=
         removeEventListener ''touchend'' (self, RemoveEventListeners)
           (removeEventListener ''touchmove'' (self, HandleTouchMove)
             (removeEventListener ''mouseup'' (self, RemoveEventListeners)
               (removeEventListener ''mousemove'' (self, HandleMouseMove) (listeners w))))\<rparr>"

definition handleMouseDown :: "nat \<Rightarrow> world \<Rightarrow> world" where
  "handleMouseDown self w =
     w\<lparr>listeners :=
         addEventListener ''mouseup'' (self, RemoveEventListeners)
           (addEventListener ''mousemove'' (self, HandleMouseMove) (listeners w))\<rparr>"

definition handleTouchStart :: "nat \<Rightarrow> world \<Rightarrow> world" where
  "handleTouchStart self w =
     w\<lparr>listeners :=
         addEventListener ''touchend'' (self, RemoveEventListeners)
           (addEventListener ''touchmove'' (self, HandleTouchMove) (listeners w))\<rparr>"

text \<open>
  The events of one instance: those on its divider, and those on \<open>window\<close>, which reach
  a callback only while it is registered. \<open>MouseMove\<close> carries \<open>clientX\<close>,
  \<open>TouchMove\<close> the \<open>pageX\<close> of the first touch.
\<close>

datatype event =
  MouseDown | TouchStart | ContextMenu | KeyDown string
  | MouseMove number | MouseUp | TouchMove number | TouchEnd

fun dispatch :: "nat \<Rightarrow> size \<Rightarrow> dom \<Rightarrow> event \<Rightarrow> world \<Rightarrow> world" where
  "dispatch self mn d MouseDown w = handleMouseDown self w"
| "dispatch self mn d TouchStart w = handleTouchStart self w"
| "dispatch self mn d ContextMenu w = removeEventListeners self w"
| "dispatch self mn d (KeyDown key) w = handleKeyDown d mn key w"
| "dispatch self mn d (MouseMove x) w =
     (if (''mousemove'', self, HandleMouseMove) \<in> set (listeners w) then handleMove d mn x w else w)"
| "dispatch self mn d MouseUp w =
     (if (''mouseup'', self, RemoveEventListeners) \<in> set (listeners w)
      then removeEventListeners self w else w)"
| "dispatch self mn d (TouchMove x) w =
     (if (''touchmove'', self, HandleTouchMove) \<in> set (listeners w) then handleMove d mn x w else w)"
| "dispatch self mn d TouchEnd w =
     (if (''touchend'', self, RemoveEventListeners) \<in> set (listeners w)
      then removeEventListeners self w else w)"

text \<open>A run: each event comes with the DOM as it is when the event is handled.\<close>

fun run :: "nat \<Rightarrow> size \<Rightarrow> (dom \<times> event) list \<Rightarrow> world \<Rightarrow> world" where
  "run self mn [] w = w"
| "run self mn ((d, ev) # evs) w = run self mn evs (dispatch self mn d ev w)"

text \<open>The cleanup of the effect, at unmount.\<close>

definition unmount :: "nat \<Rightarrow> world \<Rightarrow> world" where
  "unmount self w = removeEventListeners self w"

section \<open>Rendering\<close>

text \<open>
  A string of the rendered output: a size as it is, or a template literal, the text of a
  size followed by a suffix (\<open>`${leftPaneSize}px`\<close>).
\<close>

datatype attr = Same size | Templ size string

text \<open>
  What a render returns: the style of the container, of the left and of the right slot,
  the ARIA attributes of the divider, and the two children in their slots.
\<close>

record 'a view =
  container_minWidth :: "number option"
  left_flexBasis :: attr
  left_minWidth :: attr
  left_child :: 'a
  aria_valuemin :: number
  aria_valuemax :: number
  aria_valuetext :: attr
  aria_valuenow :: number
  right_minWidth :: attr
  right_child :: 'a

definition containerMinWidth :: "dom \<Rightarrow> size \<Rightarrow> number option" where
  "containerMinWidth d mn =
     (if isString mn \<and> isPercentage mn then None
      else Some (js_add (js_mul (Number mn) (Fin 2))
                   (case dividerRef d of
                      None \<Rightarrow> Fin 0
                    | Some divider \<Rightarrow> or_zero (Fin (of_int (clientWidth divider))))))"

definition flexBasis :: "size \<Rightarrow> attr" where
  "flexBasis lps = (if isString lps \<and> isPercentage lps then Same lps else Templ lps ''px'')"

definition minWidth :: "size \<Rightarrow> attr" where
  "minWidth mn = (if isString mn \<and> isPercentage mn then Same mn else Templ mn ''px'')"

text \<open>
  One render of the component, with the props, the refs as they are during the render and
  the current state: the validation error thrown, or the output.
\<close>

definition SplitPane :: "'a props \<Rightarrow> dom \<Rightarrow> size \<Rightarrow> error + 'a view" where
  "SplitPane p d lps =
     (case validateProps p of
        Inl e \<Rightarrow> Inl e
      | Inr _ \<Rightarrow>
          let ariaValueMin = getPercentage d (minSize p) (minSize p);
              ariaValueNow = getPercentage d (minSize p) lps
          in Inr \<lparr>container_minWidth = containerMinWidth d (minSize p),
                  left_flexBasis = flexBasis lps,
                  left_minWidth = minWidth (minSize p),
                  left_child = children p ! 0,
                  aria_valuemin = ariaValueMin,
                  aria_valuemax = js_sub (Fin 100) ariaValueMin,
                  aria_valuetext = Templ (Num ariaValueNow) ''% of the width'',
                  aria_valuenow = ariaValueNow,
                  right_minWidth = minWidth (minSize p),
                  right_child = children p ! 1\<rparr>)"

text \<open>The state at mount: \<open>useState(initialSize)\<close>, and the listeners others hold.\<close>

definition mount :: "'a props \<Rightarrow> listener list \<Rightarrow> world" where
  "mount p ls = \<lparr>leftPaneSize = initialSize p, listeners = ls\<rparr>"

text \<open>The listeners of one instance among those on \<open>window\<close>.\<close>

definition ownListeners :: "nat \<Rightarrow> listener list \<Rightarrow> listener list" where
  "ownListeners self ls = filter (\<lambda>(ty, inst, cb). inst = self) ls"

definition otherListeners :: "nat \<Rightarrow> listener list \<Rightarrow> listener list" where
  "otherListeners self ls = filter (\<lambda>(ty, inst, cb). inst \<noteq> self) ls"

section \<open>The invariant and the layout\<close>





section \<open>Configuration errors\<close>




section \<open>The container is not mounted\<close>



section \<open>Listeners\<close>

lemma listeners_handleMove: "listeners (handleMove d mn x w) = listeners w"
  by (simp add: handleMove_def)

lemma listeners_handleKeyDown: "listeners (handleKeyDown d mn key w) = listeners w"
  by (simp add: handleKeyDown_def listeners_handleMove split: option.splits)

lemma ownListeners_add:
  "ownListeners self (addEventListener ty (self, cb) ls)
     = (if (ty, self, cb) \<in> set ls then ownListeners self ls
        else ownListeners self ls @ [(ty, self, cb)])"
  by (simp add: ownListeners_def addEventListener_def)

lemma otherListeners_add:
  "otherListeners self (addEventListener ty (self, cb) ls) = otherListeners self ls"
  by (simp add: otherListeners_def addEventListener_def)

lemma otherListeners_remove:
  "otherListeners self (removeEventListener ty (self, cb) ls) = otherListeners self ls"
  by (induction ls) (auto simp: otherListeners_def removeEventListener_def)

lemma ownListeners_remove:
  "set (ownListeners self (removeEventListener ty cb ls)) = set (ownListeners self ls) - {(ty, cb)}"
  by (auto simp: ownListeners_def removeEventListener_def)

text \<open>The four listeners an instance ever registers.\<close>

lemma own_dispatch:
  "set (ownListeners self (listeners (dispatch self mn d ev w)))
     \<subseteq> set (ownListeners self (listeners w))
       \<union> {(''mousemove'', self, HandleMouseMove), (''mouseup'', self, RemoveEventListeners),
          (''touchmove'', self, HandleTouchMove), (''touchend'', self, RemoveEventListeners)}"
proof (cases ev)
  case MouseDown
  then show ?thesis
    by (auto simp: handleMouseDown_def ownListeners_add split: if_splits)
next
  case TouchStart
  then show ?thesis
    by (auto simp: handleTouchStart_def ownListeners_add split: if_splits)
next
  case ContextMenu
  then show ?thesis
    by (auto simp: removeEventListeners_def ownListeners_remove)
next
  case (KeyDown key)
  then show ?thesis
    by (auto simp: listeners_handleKeyDown)
next
  case (MouseMove x)
  then show ?thesis
    by (auto simp: listeners_handleMove)
next
  case MouseUp
  then show ?thesis
    by (auto simp: removeEventListeners_def ownListeners_remove)
next
  case (TouchMove x)
  then show ?thesis
    by (auto simp: listeners_handleMove)
next
  case TouchEnd
  then show ?thesis
    by (auto simp: removeEventListeners_def ownListeners_remove)
qed

lemma own_run:
  "set (ownListeners self (listeners (run self mn evs w)))
     \<subseteq> set (ownListeners self (listeners w))
       \<union> {(''mousemove'', self, HandleMouseMove), (''mouseup'', self, RemoveEventListeners),
          (''touchmove'', self, HandleTouchMove), (''touchend'', self, RemoveEventListeners)}"
proof (induction evs arbitrary: w)
  case Nil
  then show ?case by auto
next
  case (Cons e evs)
  obtain d ev where e: "e = (d, ev)"
    by (cases e)
  show ?case
    using Cons.IH [of "dispatch self mn d ev w"] own_dispatch [of self mn d ev w]
    unfolding e run.simps by blast
qed

lemma other_dispatch:
  "otherListeners self (listeners (dispatch self mn d ev w)) = otherListeners self (listeners w)"
  by (cases ev)
     (simp_all add: handleMouseDown_def handleTouchStart_def removeEventListeners_def
        otherListeners_add otherListeners_remove listeners_handleMove listeners_handleKeyDown)

lemma other_run:
  "otherListeners self (listeners (run self mn evs w)) = otherListeners self (listeners w)"
  by (induction evs arbitrary: w) (auto simp: other_dispatch)

lemma own_unmount:
  "set (ownListeners self (listeners (unmount self w)))
     = set (ownListeners self (listeners w))
       - {(''mousemove'', self, HandleMouseMove), (''mouseup'', self, RemoveEventListeners),
          (''touchmove'', self, HandleTouchMove), (''touchend'', self, RemoveEventListeners)}"
  by (auto simp: unmount_def removeEventListeners_def ownListeners_remove)

lemma unmount_noop:
  assumes "ownListeners self (listeners w) = []"
  shows "unmount self w = w"
proof -
  have "(ty, self, cb) \<notin> set (listeners w)" for ty cb
  proof
    assume "(ty, self, cb) \<in> set (listeners w)"
    then have "(ty, self, cb) \<in> set (ownListeners self (listeners w))"
      by (simp add: ownListeners_def)
    with assms show False by simp
  qed
  then show ?thesis
    by (simp add: unmount_def removeEventListeners_def removeEventListener_def)
qed

text \<open>
  C8. An instance that had no listener on \<open>window\<close> when it was mounted has none after
  its unmount, whatever events it handled before (a drag that was never released
  included); the listeners of other instances are as they were at mount. Unmounting
  an instance that has no listener registered changes nothing: neither right after
  the mount nor a second time.
\<close>

theorem unmount_removes_listeners:
  assumes "ownListeners self ls = []"
  shows "ownListeners self (listeners (unmount self (run self mn evs (mount p ls)))) = []
    \<and> otherListeners self (listeners (unmount self (run self mn evs (mount p ls))))
        = otherListeners self ls
    \<and> unmount self (mount p ls) = mount p ls
    \<and> unmount self (unmount self (run self mn evs (mount p ls)))
        = unmount self (run self mn evs (mount p ls))"
proof -
  let ?w = "run self mn evs (mount p ls)"
  have "set (ownListeners self (listeners ?w))
     \<subseteq> {(''mousemove'', self, HandleMouseMove), (''mouseup'', self, RemoveEventListeners),
          (''touchmove'', self, HandleTouchMove), (''touchend'', self, RemoveEventListeners)}"
    using own_run [of self mn evs "mount p ls"] assms by (simp add: mount_def)
  then have "set (ownListeners self (listeners (unmount self ?w))) = {}"
    unfolding own_unmount by blast
  then have own: "ownListeners self (listeners (unmount self ?w)) = []"
    by simp
  have other: "otherListeners self (listeners (unmount self ?w)) = otherListeners self ls"
    by (simp add: unmount_def removeEventListeners_def otherListeners_remove other_run mount_def)
  have "unmount self (mount p ls) = mount p ls"
    using assms by (intro unmount_noop) (simp add: mount_def)
  moreover have "unmount self (unmount self ?w) = unmount self ?w"
    using own by (rule unmount_noop)
  ultimately show ?thesis
    using own other by simp
qed

theorem unmount_removes_listeners_witness:
  "ownListeners 7 [(''mousemove'', 2, HandleMouseMove), (''mouseup'', 2, RemoveEventListeners)] = []
   \<and> listeners (run 7 (Num (Fin 100))
        [(\<lparr>splitPaneRef = None, dividerRef = None\<rparr>, MouseDown),
         (\<lparr>splitPaneRef = None, dividerRef = None\<rparr>, TouchStart)]
        (mount (defaultProps [(), ()])
           [(''mousemove'', 2, HandleMouseMove), (''mouseup'', 2, RemoveEventListeners)]))
      = [(''mousemove'', 2, HandleMouseMove), (''mouseup'', 2, RemoveEventListeners),
         (''mousemove'', 7, HandleMouseMove), (''mouseup'', 7, RemoveEventListeners),
         (''touchmove'', 7, HandleTouchMove), (''touchend'', 7, RemoveEventListeners)]
   \<and> ownListeners 7 (listeners (unmount 7 (run 7 (Num (Fin 100))
        [(\<lparr>splitPaneRef = None, dividerRef = None\<rparr>, MouseDown),
         (\<lparr>splitPaneRef = None, dividerRef = None\<rparr>, TouchStart)]
        (mount (defaultProps [(), ()])
           [(''mousemove'', 2, HandleMouseMove), (''mouseup'', 2, RemoveEventListeners)])))) = []
   \<and> listeners (unmount 7 (run 7 (Num (Fin 100))
        [(\<lparr>splitPaneRef = None, dividerRef = None\<rparr>, MouseDown),
         (\<lparr>splitPaneRef = None, dividerRef = None\<rparr>, TouchStart)]
        (mount (defaultProps [(), ()])
           [(''mousemove'', 2, HandleMouseMove), (''mouseup'', 2, RemoveEventListeners)])))
      = [(''mousemove'', 2, HandleMouseMove), (''mouseup'', 2, RemoveEventListeners)]"
proof -
  let ?ls = "[(''mousemove'', 2, HandleMouseMove), (''mouseup'', 2, RemoveEventListeners)]"
  let ?evs = "[(\<lparr>splitPaneRef = None, dividerRef = None\<rparr>, MouseDown),
               (\<lparr>splitPaneRef = None, dividerRef = None\<rparr>, TouchStart)]"
  have h: "ownListeners 7 ?ls = []"
    by (simp add: ownListeners_def)
  have r: "listeners (run 7 (Num (Fin 100)) ?evs (mount (defaultProps [(), ()]) ?ls))
      = ?ls @ [(''mousemove'', 7, HandleMouseMove), (''mouseup'', 7, RemoveEventListeners),
               (''touchmove'', 7, HandleTouchMove), (''touchend'', 7, RemoveEventListeners)]"
    by (simp add: mount_def handleMouseDown_def handleTouchStart_def addEventListener_def)
  have u: "listeners (unmount 7 (run 7 (Num (Fin 100)) ?evs (mount (defaultProps [(), ()]) ?ls))) = ?ls"
    by (simp add: unmount_def removeEventListeners_def removeEventListener_def mount_def
          handleMouseDown_def handleTouchStart_def addEventListener_def)
  from unmount_removes_listeners [OF h, of "Num (Fin 100)" ?evs "defaultProps [(), ()]"] h r u
  show ?thesis
    by simp
qed

section \<open>The size after a move\<close>

lemma leftPaneSize_dispatch:
  "leftPaneSize (dispatch self mn d ev w) = leftPaneSize w
   \<or> (\<exists>x. leftPaneSize (dispatch self mn d ev w) = Pct (convertPixelToPercentage d mn (Num x)))"
  by (cases ev)
     (auto simp: handleMouseDown_def handleTouchStart_def removeEventListeners_def
        handleKeyDown_def handleMove_def split: option.splits)

lemma Pct_dispatch:
  assumes "leftPaneSize w = Pct n"
  shows "\<exists>n'. leftPaneSize (dispatch self mn d ev w) = Pct n'"
  using leftPaneSize_dispatch [of self mn d ev w] assms by auto

lemma Pct_run:
  assumes "leftPaneSize w = Pct n"
  shows "\<exists>n'. leftPaneSize (run self mn evs w) = Pct n'"
  using assms
proof (induction evs arbitrary: w n)
  case Nil
  then show ?case by simp
next
  case (Cons e evs)
  obtain d ev where e: "e = (d, ev)"
    by (cases e)
  from Pct_dispatch [OF Cons.prems, of self mn d ev]
  obtain n' where "leftPaneSize (dispatch self mn d ev w) = Pct n'" ..
  from Cons.IH [OF this] show ?case
    by (simp add: e)
qed

lemma left_flexBasis_Pct:
  assumes "SplitPane p d (Pct n) = Inr out"
  shows "left_flexBasis out = Same (Pct n)"
  using assms by (auto simp: SplitPane_def Let_def flexBasis_def split: sum.splits)

text \<open>
  C7. A move stores the string \<open>`${n}%`\<close>, with \<open>n\<close> the percentage computed for the
  coordinate, whatever the size was before (a pixel value included); so does an arrow key
  on a mounted divider. After any further events the size is still such a string: it is a
  percentage string, and a render with it gives the left slot exactly that string as its
  \<open>flexBasis\<close>.
\<close>

theorem size_is_percentage_after_move:
  "leftPaneSize (handleMove d mn x w) = Pct (convertPixelToPercentage d mn (Num x))
   \<and> (dividerRef d \<noteq> None \<and> (key = ''ArrowLeft'' \<or> key = ''ArrowRight'')
        \<longrightarrow> (\<exists>n. leftPaneSize (handleKeyDown d mn key w) = Pct n))
   \<and> (\<exists>n. leftPaneSize (run self mn evs (handleMove d mn x w)) = Pct n
          \<and> isString (Pct n) \<and> isPercentage (Pct n)
          \<and> flexBasis (Pct n) = Same (Pct n)
          \<and> (\<forall>d' out. SplitPane p d' (Pct n) = Inr out \<longrightarrow> left_flexBasis out = Same (Pct n)))"
proof -
  have mv: "leftPaneSize (handleMove d mn x' w) = Pct (convertPixelToPercentage d mn (Num x'))" for x'
    by (simp add: handleMove_def)
  have key: "\<exists>n. leftPaneSize (handleKeyDown d mn key w) = Pct n"
    if "dividerRef d \<noteq> None" "key = ''ArrowLeft'' \<or> key = ''ArrowRight''"
    using that mv by (auto simp: handleKeyDown_def split: option.splits)
  from Pct_run [OF mv [of x], of self mn evs]
  obtain n where n: "leftPaneSize (run self mn evs (handleMove d mn x w)) = Pct n" ..
  have "flexBasis (Pct n) = Same (Pct n)"
    by (simp add: flexBasis_def)
  with n left_flexBasis_Pct [of p _ n] mv key show ?thesis
    by auto
qed

theorem size_is_percentage_after_move_witness:
  "dividerRef \<lparr>splitPaneRef = Some \<lparr>left = Fin 0, width = Fin 1024, clientWidth = 1024\<rparr>,
                dividerRef = Some \<lparr>left = Fin 200, width = Fin 4, clientWidth = 4\<rparr>\<rparr> \<noteq> None
   \<and> leftPaneSize (handleKeyDown
        \<lparr>splitPaneRef = Some \<lparr>left = Fin 0, width = Fin 1024, clientWidth = 1024\<rparr>,
         dividerRef = Some \<lparr>left = Fin 200, width = Fin 4, clientWidth = 4\<rparr>\<rparr>
        (Num (Fin 128)) ''ArrowRight'' \<lparr>leftPaneSize = Num (Fin 200), listeners = []\<rparr>)
      = Pct (Fin (2625 / 128))
   \<and> (case SplitPane \<lparr>children = [(), ()], initialSize = Num (Fin 200), minSize = Num (Fin 128)\<rparr>
        \<lparr>splitPaneRef = Some \<lparr>left = Fin 0, width = Fin 1024, clientWidth = 1024\<rparr>,
         dividerRef = Some \<lparr>left = Fin 210, width = Fin 4, clientWidth = 4\<rparr>\<rparr>
        (Pct (Fin (2625 / 128))) of
        Inl e \<Rightarrow> False
      | Inr out \<Rightarrow> left_flexBasis out = Same (Pct (Fin (2625 / 128))))"
proof -
  let ?d = "\<lparr>splitPaneRef = Some \<lparr>left = Fin 0, width = Fin 1024, clientWidth = 1024\<rparr>,
             dividerRef = Some \<lparr>left = Fin 200, width = Fin 4, clientWidth = 4\<rparr>\<rparr>"
  let ?d' = "\<lparr>splitPaneRef = Some \<lparr>left = Fin 0, width = Fin 1024, clientWidth = 1024\<rparr>,
             dividerRef = Some \<lparr>left = Fin 210, width = Fin 4, clientWidth = 4\<rparr>\<rparr>"
  let ?p = "\<lparr>children = [(), ()], initialSize = Num (Fin 200), minSize = Num (Fin 128)\<rparr>"
  let ?w = "\<lparr>leftPaneSize = Num (Fin 200), listeners = []\<rparr>"
  have k: "handleKeyDown ?d (Num (Fin 128)) ''ArrowRight'' ?w = handleMove ?d (Num (Fin 128)) (Fin 210) ?w"
    by (simp add: handleKeyDown_def)
  have c: "convertPixelToPercentage ?d (Num (Fin 128)) (Num (Fin 210)) = Fin (2625 / 128)"
    by (simp add: convertPixelToPercentage_def minPixel_def js_sub_def js_gt_def)
  have v: "validateProps ?p = Inr ()"
    by code_simp
  obtain out where out: "SplitPane ?p ?d' (Pct (Fin (2625 / 128))) = Inr out"
    by (simp add: SplitPane_def v Let_def)
  from size_is_percentage_after_move [of ?d "Num (Fin 128)" "Fin 210" ?w "''ArrowRight''" 0 "[]" ?p]
  show ?thesis
    using k c out by (auto simp: handleMove_def)
qed

section \<open>The minimum width of the container\<close>

text \<open>
  C9. With a pixel-based \<open>minSize\<close> (a number, or a string that is not a percentage)
  the container's \<open>minWidth\<close> is \<open>Number(minSize) * 2\<close> plus the divider's
  \<open>clientWidth\<close> (plus 0 while the divider is not mounted); for a finite minimum
  \<open>m\<close> and a mounted divider of width \<open>c\<close> that is \<open>2 * m + c\<close>. With a
  percentage string no \<open>minWidth\<close> is set. The render passes this value on.
\<close>

theorem container_min_width:
  "(\<not> (isString mn \<and> isPercentage mn) \<longrightarrow>
      containerMinWidth d mn
        = Some (js_add (js_mul (Number mn) (Fin 2))
                  (Fin (of_int (case dividerRef d of None \<Rightarrow> 0 | Some e \<Rightarrow> clientWidth e)))))
   \<and> (\<not> (isString mn \<and> isPercentage mn) \<and> Number mn = Fin m \<and> dividerRef d = Some e \<longrightarrow>
      containerMinWidth d mn = Some (Fin (2 * m + of_int (clientWidth e))))
   \<and> (isString mn \<and> isPercentage mn \<longrightarrow> containerMinWidth d mn = None)
   \<and> (SplitPane p d lps = Inr out \<longrightarrow> container_minWidth out = containerMinWidth d (minSize p))"
proof -
  have oz: "or_zero (Fin (of_int c)) = Fin (of_int c)" for c
    by (simp add: or_zero_def)
  have a: "containerMinWidth d mn
        = Some (js_add (js_mul (Number mn) (Fin 2))
                  (Fin (of_int (case dividerRef d of None \<Rightarrow> 0 | Some e \<Rightarrow> clientWidth e))))"
    if "\<not> (isString mn \<and> isPercentage mn)"
    using that by (auto simp: containerMinWidth_def oz split: option.splits)
  have b: "containerMinWidth d mn = Some (Fin (2 * m + of_int (clientWidth e)))"
    if "\<not> (isString mn \<and> isPercentage mn)" "Number mn = Fin m" "dividerRef d = Some e"
    using a [OF that(1)] that(2,3) by (simp add: mult.commute)
  have c: "containerMinWidth d mn = None" if "isString mn \<and> isPercentage mn"
    using that by (simp add: containerMinWidth_def)
  have r: "container_minWidth out = containerMinWidth d (minSize p)"
    if "SplitPane p d lps = Inr out"
    using that by (auto simp: SplitPane_def Let_def split: sum.splits)
  show ?thesis
    using a b c r by blast
qed

theorem container_min_width_witness:
  "\<not> (isString (Str ''200'') \<and> isPercentage (Str ''200''))
   \<and> containerMinWidth
        \<lparr>splitPaneRef = None, dividerRef = Some \<lparr>left = Fin 500, width = Fin 4, clientWidth = 4\<rparr>\<rparr>
        (Str ''200'') = Some (Fin 404)
   \<and> isString (Str ''30%'') \<and> isPercentage (Str ''30%'')
   \<and> containerMinWidth
        \<lparr>splitPaneRef = None, dividerRef = Some \<lparr>left = Fin 500, width = Fin 4, clientWidth = 4\<rparr>\<rparr>
        (Str ''30%'') = None
   \<and> (case SplitPane (defaultProps [(), ()])
        \<lparr>splitPaneRef = None, dividerRef = Some \<lparr>left = Fin 500, width = Fin 4, clientWidth = 4\<rparr>\<rparr>
        (Str ''50%'') of
        Inl e \<Rightarrow> False
      | Inr out \<Rightarrow> container_minWidth out = Some (Fin 204))"
proof -
  let ?e = "\<lparr>left = Fin 500, width = Fin 4, clientWidth = 4\<rparr>"
  let ?d = "\<lparr>splitPaneRef = None, dividerRef = Some ?e\<rparr>"
  let ?p = "defaultProps [(), ()]"
  have px: "\<not> (isString (Str ''200'') \<and> isPercentage (Str ''200''))"
    by code_simp
  have n: "Number (Str ''200'') = Fin 200"
    by code_simp
  have pc: "isString (Str ''30%'') \<and> isPercentage (Str ''30%'')"
    by code_simp
  have v: "validateProps ?p = Inr ()"
    by code_simp
  obtain out where out: "SplitPane ?p ?d (Str ''50%'') = Inr out"
    by (simp add: SplitPane_def v Let_def)
  have dp: "\<not> (isString (minSize ?p) \<and> isPercentage (minSize ?p))" "Number (minSize ?p) = Fin 100"
    by (simp_all add: defaultProps_def)
  from container_min_width [of "Str ''200''" ?d 200 ?e ?p "Str ''50%''" out]
       container_min_width [of "Str ''30%''" ?d 0 ?e ?p "Str ''50%''" out]
       container_min_width [of "minSize ?p" ?d 100 ?e ?p "Str ''50%''" out]
  show ?thesis
    using px n pc out dp by simp
qed

section \<open>Pointer to position\<close>

lemma convert_finite:
  assumes "splitPaneRef d = Some e" "left e = Fin L" "width e = Fin W" "W \<noteq> 0"
    and "minPixel (Fin W) mn = Fin m" "toFloat px = Fin x"
  shows "convertPixelToPercentage d mn px
    = Fin ((if x - L < m then m else if W - m < x - L then W - m else x - L) / W * 100)"
  using assms by (simp add: convertPixelToPercentage_def Let_def js_sub_def js_gt_def)

text \<open>
  C1, as the counterexample below forces it. The container is mounted with left edge
  \<open>L\<close> and width \<open>W > 0\<close>, and \<open>minSize\<close> in pixels is \<open>m\<close>. When
  \<open>[m, W - m]\<close> is not empty the conversion returns
  \<open>clamp(x - L, m, W - m) / W * 100\<close>. A coordinate left of the container gives a
  left pane of \<open>m\<close> pixels when \<open>0 \<le> m\<close>, a coordinate past the right edge one of
  \<open>W - m\<close> pixels when \<open>0 \<le> m \<le> W\<close>.
\<close>

theorem pointer_to_position:
  assumes "splitPaneRef d = Some e" "left e = Fin L" "width e = Fin W" "0 < W"
    and "minPixel (Fin W) mn = Fin m"
  shows "(m \<le> W - m \<longrightarrow>
            convertPixelToPercentage d mn (Num (Fin x)) = Fin (max m (min (x - L) (W - m)) / W * 100))
    \<and> (0 \<le> m \<and> x < L \<longrightarrow>
          js_mul (js_div (convertPixelToPercentage d mn (Num (Fin x))) (Fin 100)) (Fin W) = Fin m)
    \<and> (0 \<le> m \<and> m \<le> W \<and> L + W < x \<longrightarrow>
          js_mul (js_div (convertPixelToPercentage d mn (Num (Fin x))) (Fin 100)) (Fin W) = Fin (W - m))
    \<and> minPixel (Fin W) mn
        = (if isString mn \<and> isPercentage mn then js_mul (js_div (parsePercent mn) (Fin 100)) (Fin W)
           else Number mn)"
proof -
  have W: "W \<noteq> 0"
    using assms(4) by simp
  note c = convert_finite [OF assms(1-3) W assms(5), of "Num (Fin x)" x, simplified]
  have a: "convertPixelToPercentage d mn (Num (Fin x)) = Fin (max m (min (x - L) (W - m)) / W * 100)"
    if "m \<le> W - m"
    using that unfolding c by (auto simp: max_def min_def)
  have b: "js_mul (js_div (convertPixelToPercentage d mn (Num (Fin x))) (Fin 100)) (Fin W) = Fin m"
    if "0 \<le> m" "x < L"
    using that W unfolding c by simp
  have r: "js_mul (js_div (convertPixelToPercentage d mn (Num (Fin x))) (Fin 100)) (Fin W) = Fin (W - m)"
    if "0 \<le> m" "m \<le> W" "L + W < x"
    using that W unfolding c by (auto simp: field_simps)
  show ?thesis
    using a b r by (simp add: minPixel_def)
qed

theorem pointer_to_position_witness:
  "splitPaneRef \<lparr>splitPaneRef = Some \<lparr>left = Fin 64, width = Fin 1024, clientWidth = 1024\<rparr>,
                  dividerRef = None\<rparr> = Some \<lparr>left = Fin 64, width = Fin 1024, clientWidth = 1024\<rparr>
   \<and> minPixel (Fin 1024) (Str ''12.5%'') = Fin 128
   \<and> convertPixelToPercentage
        \<lparr>splitPaneRef = Some \<lparr>left = Fin 64, width = Fin 1024, clientWidth = 1024\<rparr>, dividerRef = None\<rparr>
        (Str ''12.5%'') (Num (Fin 2000)) = Fin (max 128 (min (2000 - 64) (1024 - 128)) / 1024 * 100)
   \<and> js_mul (js_div (convertPixelToPercentage
        \<lparr>splitPaneRef = Some \<lparr>left = Fin 64, width = Fin 1024, clientWidth = 1024\<rparr>, dividerRef = None\<rparr>
        (Str ''12.5%'') (Num (Fin 2000))) (Fin 100)) (Fin 1024) = Fin (1024 - 128)
   \<and> js_mul (js_div (convertPixelToPercentage
        \<lparr>splitPaneRef = Some \<lparr>left = Fin 64, width = Fin 1024, clientWidth = 1024\<rparr>, dividerRef = None\<rparr>
        (Str ''12.5%'') (Num (Fin 0))) (Fin 100)) (Fin 1024) = Fin 128"
proof -
  let ?e = "\<lparr>left = Fin 64, width = Fin 1024, clientWidth = 1024\<rparr>"
  let ?d = "\<lparr>splitPaneRef = Some ?e, dividerRef = None\<rparr>"
  have m: "minPixel (Fin 1024) (Str ''12.5%'') = Fin 128"
    by code_simp
  have "splitPaneRef ?d = Some ?e" "left ?e = Fin 64" "width ?e = Fin 1024" "(0::rat) < 1024"
    by simp_all
  from pointer_to_position [OF this m, of 2000] pointer_to_position [OF this m, of 0] m
  show ?thesis
    by simp
qed

text \<open>
  The claim as stated fails where the minimum is wider than the container: with
  \<open>L = 0\<close>, \<open>W = 128\<close> and \<open>minSize = 192\<close> the coordinate 160, past the right edge,
  gives a left pane of 192 pixels, not of \<open>W - m = -64\<close>.
\<close>

theorem pointer_to_position_counterexample:
  "js_lt (js_add (Fin 0) (Fin 128)) (Fin 160)
   \<and> js_mul (js_div (convertPixelToPercentage
        \<lparr>splitPaneRef = Some \<lparr>left = Fin 0, width = Fin 128, clientWidth = 128\<rparr>, dividerRef = None\<rparr>
        (Num (Fin 192)) (Num (Fin 160))) (Fin 100)) (Fin 128) = Fin 192
   \<and> Fin 192 \<noteq> js_sub (Fin 128) (minPixel (Fin 128) (Num (Fin 192)))"
  by (simp add: convertPixelToPercentage_def minPixel_def js_sub_def js_gt_def)

section \<open>The bounds of the left pane\<close>








section \<open>Arrow keys\<close>








section \<open>ARIA values\<close>




section \<open>Validation of the sizes\<close>







lemma validateSize_ok:
  "(validateSize sz label = Inr ()) = (\<not> isNaN (toFloat sz) \<and> \<not> js_lt (toFloat sz) (Fin 0))"
  by (simp add: validateSize_def isNegative_def)










end
